theory Spec2Isabelle
  imports Main "HOL-Library.Word"
begin

section \<open>Version-prefixed redirects of the prototype's route groups\<close>

text \<open>
  The repository mounts one router per prototype version (\<^verbatim>\<open>app/routes.js\<close>) and, in
  each version's \<^verbatim>\<open>routing.js\<close>, installs a middleware that replaces
  \<^verbatim>\<open>res.redirect\<close> by a function that puts \<^verbatim>\<open>req.baseUrl\<close> in front of the
  redirect target before calling the framework's own redirect.
\<close>

subsection \<open>JavaScript values\<close>

text \<open>
  A JavaScript string is a sequence of 16-bit code units, and \<^verbatim>\<open>startsWith\<close> and
  \<^verbatim>\<open>+\<close> work on code units. \<open>js\<close> writes a string literal of the source as such
  a sequence.
\<close>

type_synonym jsstring = "16 word list"

definition js :: "string \<Rightarrow> jsstring" where
  "js s = map of_char s"

text \<open>
  The values a caller can hand to \<^verbatim>\<open>res.redirect\<close>. Only a string has a
  \<^verbatim>\<open>startsWith\<close> method; on the other values of this type the call
  \<^verbatim>\<open>url.startsWith('/')\<close> throws a TypeError. Objects (which could carry a
  \<^verbatim>\<open>startsWith\<close> property of their own) are outside the model.
\<close>

datatype jsval = JString jsstring | JNumber int | JBoolean bool | JNull | JUndefined

datatype error = TypeError

text \<open>
  \<^verbatim>\<open>String.prototype.startsWith(searchString)\<close> with the position left out: false when
  the search string is longer than the string, otherwise the comparison of the leading code
  units with the search string.
\<close>

definition startsWith :: "jsstring \<Rightarrow> jsstring \<Rightarrow> bool" where
  "startsWith s searchString =
     (if length s < length searchString then False
      else take (length searchString) s = searchString)"

subsection \<open>Request and response\<close>

datatype http_method = GET | POST | PUT | DELETE | OtherMethod

text \<open>
  Of the request, the code reads \<^verbatim>\<open>req.baseUrl\<close>; the framework reads the method and
  the path (relative to the mount point) to choose a handler. Of the response, only the
  \<^verbatim>\<open>redirect\<close> method is used; its result type \<open>'r\<close> is whatever the framework's
  redirect gives back.
\<close>

record request =
  req_method :: http_method
  baseUrl :: jsstring
  path :: jsstring

record 'r response =
  redirect :: "jsval \<Rightarrow> error + 'r"

subsection \<open>\<^verbatim>\<open>app/views/v2/routing.js\<close>\<close>

text \<open>
  Lines 8 to 13, the function assigned to \<^verbatim>\<open>res.redirect\<close>:
  \<^verbatim>\<open>
    res.redirect = function(url) {
      if (url.startsWith('/') && !url.startsWith(req.baseUrl)) {
        url = req.baseUrl + url;
      }
      return originalRedirect.call(this, url);
    };
  \<close>
  \<open>originalRedirect\<close> is the framework's redirect, saved on line 7.
\<close>

definition res_redirect :: "request \<Rightarrow> (jsval \<Rightarrow> error + 'r) \<Rightarrow> jsval \<Rightarrow> error + 'r" where
  "res_redirect req originalRedirect url =
     (case url of
        JString u \<Rightarrow>
          originalRedirect (JString
            (if startsWith u (js ''/'') \<and> \<not> startsWith u (baseUrl req)
             then baseUrl req @ u
             else u))
      | _ \<Rightarrow> Inl TypeError)"

text \<open>
  Lines 6 to 15, the middleware: it saves the response's redirect, installs the function
  above in its place, and lets the request go on to the routes (\<^verbatim>\<open>next()\<close>).
\<close>

definition middleware :: "request \<Rightarrow> 'r response \<Rightarrow> 'r response" where
  "middleware req res = res\<lparr>redirect := res_redirect req (redirect res)\<rparr>"

text \<open>
  Lines 18 to 33, the four \<^verbatim>\<open>subRouter.post\<close> routes, in the order of the source: the
  route's path and its handler, which calls \<^verbatim>\<open>res.redirect\<close> with a constant.
\<close>

definition post_routes :: "(jsstring \<times> (request \<Rightarrow> 'r response \<Rightarrow> error + 'r)) list" where
  "post_routes =
     [(js ''/question-1'', \<lambda>req res. redirect res (JString (js ''/question-2''))),
      (js ''/question-2'', \<lambda>req res. redirect res (JString (js ''/question-1''))),
      (js ''/nested/question-1'', \<lambda>req res. redirect res (JString (js ''/nested/question-2''))),
      (js ''/nested/question-2'', \<lambda>req res. redirect res (JString (js ''/nested/question-1'')))]"

text \<open>
  The router the module returns. How a route's path is compared with the request's path
  belongs to the framework and is the parameter \<open>matches\<close>. A request runs the middleware
  and then the handler of the first POST route that matches; \<open>None\<close> when no route of
  this router takes the request.
\<close>

definition subRouter ::
  "(jsstring \<Rightarrow> jsstring \<Rightarrow> bool) \<Rightarrow> request \<Rightarrow> 'r response \<Rightarrow> (error + 'r) option" where
  "subRouter matches req res =
     (let res' = middleware req res in
      if req_method req = POST then
        (case find (\<lambda>(route, handler). matches route (path req)) post_routes of
           None \<Rightarrow> None
         | Some (route, handler) \<Rightarrow> Some (handler req res'))
      else None)"

definition routing_v2 ::
  "(jsstring \<Rightarrow> jsstring \<Rightarrow> bool) \<Rightarrow> request \<Rightarrow> 'r response \<Rightarrow> (error + 'r) option" where
  "routing_v2 = subRouter"

subsection \<open>\<^verbatim>\<open>app/routes.js\<close>\<close>

definition routing_v1 ::
  "(jsstring \<Rightarrow> jsstring \<Rightarrow> bool) \<Rightarrow> request \<Rightarrow> 'r response \<Rightarrow> (error + 'r) option" where
  \<comment> \<open>Modelled from the spec: \<^verbatim>\<open>app/views/v1/routing.js\<close>, which \<^verbatim>\<open>routes.js\<close> requires,
      is not among the sources. The spec gives the two groups the same relative route set and
      has the prefixing installed once per route group, so the group of version 1 is the
      router of version 2.\<close>
  "routing_v1 = subRouter"

text \<open>
  Lines 7 and 8, the two \<^verbatim>\<open>router.use\<close> calls: the mount prefix and the router mounted
  there. While a mounted router handles a request, the framework has set
  \<^verbatim>\<open>req.baseUrl\<close> to the mount prefix.
\<close>

definition mounts ::
  "(jsstring \<times> ((jsstring \<Rightarrow> jsstring \<Rightarrow> bool) \<Rightarrow> request \<Rightarrow> 'r response \<Rightarrow> (error + 'r) option)) list" where
  "mounts = [(js ''/v1'', routing_v1), (js ''/v2'', routing_v2)]"

subsection \<open>Notions of the specification\<close>

text \<open>
  The path-segment comparison the specification's design notes ask for, which the source does
  not make: the target is the prefix itself or continues it with a slash.
\<close>

definition segment_prefix :: "jsstring \<Rightarrow> jsstring \<Rightarrow> bool" where
  "segment_prefix pre target = (target = pre \<or> startsWith target (pre @ js ''/''))"

text \<open>
  A URL that carries a scheme (RFC 3986, section 3.1): a letter, then letters, digits,
  \<^verbatim>\<open>+\<close>, \<^verbatim>\<open>-\<close> or \<^verbatim>\<open>.\<close> (code units 43, 45 and 46), then a colon
  (code unit 58). The slash is code unit 47.
\<close>

definition is_alpha :: "16 word \<Rightarrow> bool" where
  "is_alpha c = (65 \<le> unat c \<and> unat c \<le> 90 \<or> 97 \<le> unat c \<and> unat c \<le> 122)"

definition is_digit :: "16 word \<Rightarrow> bool" where
  "is_digit c = (48 \<le> unat c \<and> unat c \<le> 57)"

definition scheme_char :: "16 word \<Rightarrow> bool" where
  "scheme_char c = (is_alpha c \<or> is_digit c \<or> c = 43 \<or> c = 45 \<or> c = 46)"

definition has_scheme :: "jsstring \<Rightarrow> bool" where
  "has_scheme u =
     (case u of
        [] \<Rightarrow> False
      | c # cs \<Rightarrow>
          is_alpha c \<and> list_all scheme_char (takeWhile (\<lambda>x. x \<noteq> 58) cs)
          \<and> dropWhile (\<lambda>x. x \<noteq> 58) cs \<noteq> [])"

text \<open>
  A root-relative path, as opposed to a network-path reference (RFC 3986, section 4.2): it
  begins with one slash and not with two. \<^verbatim>\<open>//example.com/x\<close> names another host and
  is not root-relative.
\<close>

definition root_relative :: "jsstring \<Rightarrow> bool" where
  "root_relative u = (startsWith u (js ''/'') \<and> \<not> startsWith u (js ''//''))"

subsection \<open>Redirect targets and example requests\<close>

text \<open>
  The arguments the four handlers give to \<^verbatim>\<open>res.redirect\<close> (lines 19, 23, 28 and 32 of
  \<^verbatim>\<open>routing.js\<close>), in the order of the routes.
\<close>

definition handler_targets :: "jsstring list" where
  "handler_targets =
     [js ''/question-2'', js ''/question-1'', js ''/nested/question-2'', js ''/nested/question-1'']"

text \<open>
  The requests of the README's example workflow, as the mounted router sees them: the form
  of \<^verbatim>\<open>/v1/question-1\<close>, of \<^verbatim>\<open>/v1/nested/question-1\<close> and of
  \<^verbatim>\<open>/v2/question-2\<close> submitted.
\<close>

definition post_v1 :: request where
  "post_v1 = \<lparr>req_method = POST, baseUrl = js ''/v1'', path = js ''/question-1''\<rparr>"

definition post_v1_nested :: request where
  "post_v1_nested = \<lparr>req_method = POST, baseUrl = js ''/v1'', path = js ''/nested/question-1''\<rparr>"

definition post_v2 :: request where
  "post_v2 = \<lparr>req_method = POST, baseUrl = js ''/v2'', path = js ''/question-2''\<rparr>"

subsection \<open>Facts about \<open>startsWith\<close>\<close>

lemma startsWith_append: "startsWith (pre @ s) pre"
  by (simp add: startsWith_def)

lemma startsWith_append_same: "startsWith (pre @ s) (pre @ q) = startsWith s q"
  by (simp add: startsWith_def)

lemma startsWith_Nil: "startsWith s []"
  by (simp add: startsWith_def)

lemma startsWith_Cons:
  "startsWith (c # cs) (d # ds) = (c = d \<and> startsWith cs ds)"
  by (auto simp add: startsWith_def)

lemma startsWith_slash: "startsWith s (js ''/'') = (\<exists>cs. s = 47 # cs)"
  by (cases s) (simp_all add: startsWith_def js_def)

subsection \<open>The replaced redirect\<close>

lemma res_redirect_string:
  "res_redirect req originalRedirect (JString u) =
     originalRedirect (JString
       (if startsWith u (js ''/'') \<and> \<not> startsWith u (baseUrl req) then baseUrl req @ u else u))"
  by (simp add: res_redirect_def)

text \<open>The error branch is real: a status code in the place of the URL throws.\<close>

lemma res_redirect_number: "res_redirect req originalRedirect (JNumber n) = Inl TypeError"
  by (simp add: res_redirect_def)

text \<open>
  Claim C1: when the target starts with a slash and does not start with the prefix, the
  framework's redirect is called with exactly prefix + target, whatever the depth of the
  path.
\<close>

theorem prefix_added:
  assumes "startsWith p (js ''/'')" and "\<not> startsWith p (baseUrl req)"
  shows "res_redirect req originalRedirect (JString p)
           = originalRedirect (JString (baseUrl req @ p))"
  using assms by (simp add: res_redirect_string)

theorem prefix_added_witness:
  "startsWith (js ''/nested/question-2'') (js ''/'')
   \<and> \<not> startsWith (js ''/nested/question-2'') (baseUrl post_v1_nested)
   \<and> res_redirect post_v1_nested Inr (JString (js ''/nested/question-2''))
       = Inr (JString (js ''/v1/nested/question-2''))
   \<and> startsWith (js ''/question-1'') (js ''/'')
   \<and> \<not> startsWith (js ''/question-1'') (baseUrl post_v2)
   \<and> res_redirect post_v2 Inr (JString (js ''/question-1''))
       = Inr (JString (js ''/v2/question-1''))"
  using prefix_added [of "js ''/nested/question-2''" post_v1_nested Inr]
    prefix_added [of "js ''/question-1''" post_v2 Inr]
  by (simp add: post_v1_nested_def post_v2_def startsWith_def js_def)

text \<open>
  Claim C3: when the target starts with a slash and did not carry the mount prefix, the
  target handed to the framework's redirect begins with the mount prefix.
\<close>

theorem target_under_prefix:
  assumes "startsWith p (js ''/'')" and "\<not> startsWith p (baseUrl req)"
  shows "\<exists>t. startsWith t (baseUrl req)
           \<and> (\<forall>originalRedirect :: jsval \<Rightarrow> error + 'r.
                 res_redirect req originalRedirect (JString p) = originalRedirect (JString t))"
  using assms
  by (intro exI [of _ "baseUrl req @ p"]) (simp add: res_redirect_string startsWith_append)

theorem target_under_prefix_witness:
  "startsWith (js ''/question-2'') (js ''/'')
   \<and> \<not> startsWith (js ''/question-2'') (baseUrl post_v1)
   \<and> (\<exists>t. startsWith t (js ''/v1'')
           \<and> (\<forall>originalRedirect :: jsval \<Rightarrow> error + jsval.
                 res_redirect post_v1 originalRedirect (JString (js ''/question-2''))
                   = originalRedirect (JString t)))"
  using target_under_prefix [of "js ''/question-2''" post_v1, where 'r = jsval]
  by (simp add: post_v1_def startsWith_def js_def)

text \<open>
  Claim C4: there are a prefix and an absolute target for which the raw prefix check
  misfires. The target \<^verbatim>\<open>/v10/question-1\<close> starts with the prefix \<^verbatim>\<open>/v1\<close> as a string
  without lying under it as a path, and is passed through unchanged.
\<close>

theorem raw_prefix_check_misfires:
  "\<exists>req target.
     startsWith target (js ''/'') \<and> startsWith target (baseUrl req)
     \<and> \<not> segment_prefix (baseUrl req) target
     \<and> (\<forall>originalRedirect :: jsval \<Rightarrow> error + 'r.
           res_redirect req originalRedirect (JString target) = originalRedirect (JString target))"
  by (intro exI [of _ post_v1] exI [of _ "js ''/v10/question-1''"])
     (simp add: post_v1_def res_redirect_string segment_prefix_def startsWith_def js_def)

text \<open>
  Claim C5: a target that starts with a slash and already starts with the mount prefix is
  handed on unchanged; \<^verbatim>\<open>/v1/question-2\<close> under \<^verbatim>\<open>/v1\<close> stays
  \<^verbatim>\<open>/v1/question-2\<close> and does not become \<^verbatim>\<open>/v1/v1/question-2\<close>.
\<close>

theorem already_prefixed_unchanged:
  assumes "startsWith p (js ''/'')" and "startsWith p (baseUrl req)"
  shows "res_redirect req originalRedirect (JString p) = originalRedirect (JString p)"
  using assms by (simp add: res_redirect_string)

theorem already_prefixed_unchanged_witness:
  "startsWith (js ''/v1/question-2'') (js ''/'')
   \<and> startsWith (js ''/v1/question-2'') (baseUrl post_v1)
   \<and> res_redirect post_v1 Inr (JString (js ''/v1/question-2''))
       = Inr (JString (js ''/v1/question-2''))
   \<and> res_redirect post_v1 Inr (JString (js ''/v1/question-2''))
       \<noteq> Inr (JString (js ''/v1/v1/question-2''))"
  using already_prefixed_unchanged [of "js ''/v1/question-2''" post_v1 Inr]
  by (simp add: post_v1_def startsWith_def js_def)

text \<open>
  Claim C6: a target that does not start with a slash is handed on unchanged.
\<close>

theorem relative_unchanged:
  assumes "\<not> startsWith p (js ''/'')"
  shows "res_redirect req originalRedirect (JString p) = originalRedirect (JString p)"
  using assms by (simp add: res_redirect_string)

theorem relative_unchanged_witness:
  "\<not> startsWith (js ''question-2'') (js ''/'')
   \<and> res_redirect post_v1 Inr (JString (js ''question-2'')) = Inr (JString (js ''question-2''))"
  using relative_unchanged [of "js ''question-2''" post_v1 Inr]
  by (simp add: startsWith_def js_def)

text \<open>
  Claim C7: prefixing is idempotent for every prefix and every target string. Installing
  the replacement twice redirects as installing it once does, and the final target of a
  string is handed on unchanged when it is redirected to again.
\<close>

theorem prefixing_idempotent:
  "res_redirect req (res_redirect req originalRedirect) (JString p)
     = res_redirect req originalRedirect (JString p)
   \<and> (\<exists>t. res_redirect req Inr (JString p) = Inr (JString t)
          \<and> res_redirect req Inr (JString t) = Inr (JString t))"
proof (cases "startsWith p (js ''/'') \<and> \<not> startsWith p (baseUrl req)")
  case True
  then show ?thesis
    by (simp add: res_redirect_string startsWith_append)
next
  case False
  then show ?thesis
    by (auto simp add: res_redirect_string)
qed

lemma startsWith_appendD:
  assumes "startsWith s (a @ b)"
  shows "startsWith s a"
proof -
  from assms have "take (length (a @ b)) s = a @ b"
    by (simp add: startsWith_def split: if_splits)
  then have "s = a @ (b @ drop (length (a @ b)) s)"
    by (metis append_assoc append_take_drop_id)
  then show ?thesis
    by (metis startsWith_append)
qed

lemma two_slashes_absolute: "startsWith p (js ''//'') \<Longrightarrow> startsWith p (js ''/'')"
  using startsWith_appendD [of p "js ''/''" "js ''/''"] by (simp add: js_def)

lemma has_scheme_not_absolute: "has_scheme u \<Longrightarrow> \<not> startsWith u (js ''/'')"
  by (cases u) (auto simp add: has_scheme_def startsWith_slash is_alpha_def)

text \<open>
  Claim C8, as the source has it: a URL that carries a scheme, such as
  \<^verbatim>\<open>https://example.com\<close>, does not begin with a slash and is handed on unchanged.
  Prefixing is applied only to targets that begin with a slash and do not begin with the
  mount prefix. That is wider than the root-relative paths: a target that begins with two
  slashes and not with the mount prefix is prefixed like any other.
\<close>

theorem scheme_url_unchanged:
  "(has_scheme u \<longrightarrow>
      \<not> startsWith u (js ''/'')
      \<and> res_redirect req originalRedirect (JString u) = originalRedirect (JString u))
   \<and> (res_redirect req originalRedirect (JString p) \<noteq> originalRedirect (JString p) \<longrightarrow>
        startsWith p (js ''/'') \<and> \<not> startsWith p (baseUrl req))
   \<and> (startsWith p (js ''//'') \<and> \<not> startsWith p (baseUrl req) \<longrightarrow>
        \<not> root_relative p
        \<and> res_redirect req originalRedirect (JString p)
            = originalRedirect (JString (baseUrl req @ p)))"
proof (intro conjI impI)
  assume "has_scheme u"
  then show "\<not> startsWith u (js ''/'')"
    by (rule has_scheme_not_absolute)
  then show "res_redirect req originalRedirect (JString u) = originalRedirect (JString u)"
    by (simp add: res_redirect_string)
next
  assume changed: "res_redirect req originalRedirect (JString p) \<noteq> originalRedirect (JString p)"
  then show "startsWith p (js ''/'')"
    by (auto simp add: res_redirect_string split: if_splits)
  from changed show "\<not> startsWith p (baseUrl req)"
    by (auto simp add: res_redirect_string split: if_splits)
next
  assume two: "startsWith p (js ''//'') \<and> \<not> startsWith p (baseUrl req)"
  then show "\<not> root_relative p"
    by (simp add: root_relative_def)
  from two have "startsWith p (js ''/'')"
    by (simp add: two_slashes_absolute)
  with two show "res_redirect req originalRedirect (JString p)
      = originalRedirect (JString (baseUrl req @ p))"
    by (simp add: res_redirect_string)
qed

theorem scheme_url_unchanged_witness:
  "has_scheme (js ''https://example.com'')
   \<and> \<not> startsWith (js ''https://example.com'') (js ''/'')
   \<and> res_redirect post_v1 Inr (JString (js ''https://example.com''))
       = Inr (JString (js ''https://example.com''))
   \<and> res_redirect post_v1 Inr (JString (js ''//example.com/x''))
       \<noteq> Inr (JString (js ''//example.com/x''))
   \<and> startsWith (js ''//example.com/x'') (js ''/'')
   \<and> startsWith (js ''//example.com/x'') (js ''//'')
   \<and> \<not> startsWith (js ''//example.com/x'') (baseUrl post_v1)
   \<and> \<not> root_relative (js ''//example.com/x'')
   \<and> res_redirect post_v1 Inr (JString (js ''//example.com/x''))
       = Inr (JString (js ''/v1//example.com/x''))"
  using scheme_url_unchanged [of "js ''https://example.com''" post_v1 Inr "js ''//example.com/x''"]
  by (simp add: has_scheme_def js_def is_alpha_def scheme_char_def is_digit_def
        post_v1_def startsWith_def root_relative_def res_redirect_string)

text \<open>
  The closing clause of claim C8 as written, that prefixing is applied only to root-relative
  paths, fails under \<^verbatim>\<open>/v1\<close> at \<^verbatim>\<open>//example.com/x\<close>: the target is not
  root-relative and the redirect goes to \<^verbatim>\<open>/v1//example.com/x\<close>.
\<close>

theorem prefix_beyond_root_relative_counterexample:
  "\<not> root_relative (js ''//example.com/x'')
   \<and> res_redirect post_v1 Inr (JString (js ''//example.com/x''))
       = Inr (JString (js ''/v1//example.com/x''))
   \<and> js ''/v1//example.com/x'' \<noteq> js ''//example.com/x''"
  by (simp add: root_relative_def res_redirect_string post_v1_def startsWith_def js_def)

text \<open>
  Claim C9: on a string the replacement throws nothing of its own. It calls the framework's
  redirect once, with the input or with the prefixed input, and returns what that call
  returns; with a framework redirect that returns the URL it is given, the result is that
  string.
\<close>

theorem no_error_on_strings:
  "\<exists>t. (t = p \<or> t = baseUrl req @ p)
       \<and> (\<forall>originalRedirect :: jsval \<Rightarrow> error + 'r.
             res_redirect req originalRedirect (JString p) = originalRedirect (JString t))
       \<and> res_redirect req Inr (JString p) = Inr (JString t)"
  by (cases "startsWith p (js ''/'') \<and> \<not> startsWith p (baseUrl req)")
     (auto simp add: res_redirect_string)

text \<open>
  Claim C10: under the empty mount prefix every target string, absolute or not, is handed
  on unchanged.
\<close>

theorem root_mount_identity:
  "res_redirect (req\<lparr>baseUrl := []\<rparr>) originalRedirect (JString p) = originalRedirect (JString p)"
  by (simp add: res_redirect_string startsWith_Nil)

subsection \<open>The mounted route groups\<close>

lemma find_in_set: "find P xs = Some x \<Longrightarrow> x \<in> set xs"
  by (induction xs) (auto split: if_splits)

lemma subRouter_result:
  assumes "subRouter matches req res = Some r"
  shows "\<exists>route handler.
           (route, handler) \<in> set post_routes \<and> r = handler req (middleware req res)"
proof -
  from assms obtain rh where
    f: "find (\<lambda>(route, handler). matches route (path req)) post_routes = Some rh"
    and r: "r = snd rh req (middleware req res)"
    by (auto simp add: subRouter_def Let_def split: if_splits option.splits)
  from f have "rh \<in> set post_routes" by (rule find_in_set)
  with r show ?thesis by (cases rh) auto
qed

lemma handler_redirects:
  assumes "(route, handler) \<in> set post_routes"
  shows "\<exists>u \<in> set handler_targets. handler req res = redirect res (JString u)"
  using assms by (auto simp add: post_routes_def handler_targets_def)

lemma handler_targets_absolute:
  assumes "u \<in> set handler_targets"
  shows "startsWith u (js ''/'')"
    and "\<not> startsWith u (js ''/v1'')"
    and "\<not> startsWith u (js ''/v2'')"
  using assms by (auto simp add: handler_targets_def js_def startsWith_Cons startsWith_Nil)

lemma versions_apart:
  "\<not> startsWith (js ''/v1'' @ u) (js ''/v2/'')"
  "\<not> startsWith (js ''/v2'' @ u) (js ''/v1/'')"
  by (simp_all add: js_def startsWith_Cons startsWith_Nil)

text \<open>
  Claim C2: a redirect issued by a group mounted in \<^verbatim>\<open>routes.js\<close>, while it handles a
  request under its mount prefix, goes to the prefix followed by one of the four targets of
  the handlers; under \<^verbatim>\<open>/v1\<close> the final target starts with \<^verbatim>\<open>/v1/\<close> and not with
  \<^verbatim>\<open>/v2/\<close>, and under \<^verbatim>\<open>/v2\<close> it starts with \<^verbatim>\<open>/v2/\<close> and not with \<^verbatim>\<open>/v1/\<close>.
  The framework's redirect is taken to return the URL it is given, so that the result shows
  the final target.
\<close>

theorem no_cross_redirect:
  assumes "(m, routing) \<in> set mounts" and "baseUrl req = m"
    and "routing matches req \<lparr>redirect = Inr\<rparr> = Some r"
  shows "\<exists>u \<in> set handler_targets. r = Inr (JString (m @ u))
           \<and> (m = js ''/v1'' \<and> startsWith (m @ u) (js ''/v1/'')
                \<and> \<not> startsWith (m @ u) (js ''/v2/'')
              \<or> m = js ''/v2'' \<and> startsWith (m @ u) (js ''/v2/'')
                \<and> \<not> startsWith (m @ u) (js ''/v1/''))"
proof -
  from assms(1) have m: "m = js ''/v1'' \<or> m = js ''/v2''" and "routing = subRouter"
    by (auto simp add: mounts_def routing_v1_def routing_v2_def)
  with assms(3) obtain route handler where
    h: "(route, handler) \<in> set post_routes"
    and r: "r = handler req (middleware req \<lparr>redirect = Inr\<rparr>)"
    using subRouter_result by blast
  from handler_redirects [OF h] obtain u where
    u: "u \<in> set handler_targets"
    and "handler req (middleware req \<lparr>redirect = Inr\<rparr>)
           = redirect (middleware req \<lparr>redirect = Inr\<rparr>) (JString u)"
    by blast
  with r have r': "r = res_redirect req Inr (JString u)"
    by (simp add: middleware_def)
  note abs = handler_targets_absolute [OF u]
  from m abs assms(2) have "r = Inr (JString (m @ u))"
    unfolding r' by (auto simp add: res_redirect_string)
  moreover have "startsWith (m @ u) (m @ js ''/'')"
    using abs(1) by (simp add: startsWith_append_same)
  then have "m = js ''/v1'' \<Longrightarrow> startsWith (m @ u) (js ''/v1/'')"
    and "m = js ''/v2'' \<Longrightarrow> startsWith (m @ u) (js ''/v2/'')"
    by (simp_all add: js_def)
  ultimately show ?thesis
    using m u versions_apart by blast
qed

theorem no_cross_redirect_witness:
  "(js ''/v1'', routing_v1) \<in> set mounts
   \<and> baseUrl post_v1 = js ''/v1''
   \<and> routing_v1 (=) post_v1 \<lparr>redirect = Inr\<rparr> = Some (Inr (JString (js ''/v1/question-2'')))
   \<and> (\<exists>u \<in> set handler_targets.
         Inr (JString (js ''/v1/question-2'')) = (Inr (JString (js ''/v1'' @ u)) :: error + jsval)
         \<and> startsWith (js ''/v1'' @ u) (js ''/v1/'')
         \<and> \<not> startsWith (js ''/v1'' @ u) (js ''/v2/''))
   \<and> (js ''/v2'', routing_v2) \<in> set mounts
   \<and> baseUrl post_v2 = js ''/v2''
   \<and> routing_v2 (=) post_v2 \<lparr>redirect = Inr\<rparr> = Some (Inr (JString (js ''/v2/question-1'')))
   \<and> (\<exists>u \<in> set handler_targets.
         Inr (JString (js ''/v2/question-1'')) = (Inr (JString (js ''/v2'' @ u)) :: error + jsval)
         \<and> startsWith (js ''/v2'' @ u) (js ''/v2/'')
         \<and> \<not> startsWith (js ''/v2'' @ u) (js ''/v1/''))"
  using no_cross_redirect [of "js ''/v1''" routing_v1 post_v1 "(=)"
      "Inr (JString (js ''/v1/question-2''))"]
    no_cross_redirect [of "js ''/v2''" routing_v2 post_v2 "(=)"
      "Inr (JString (js ''/v2/question-1''))"]
  by (simp add: mounts_def routing_v1_def routing_v2_def subRouter_def middleware_def
        post_routes_def post_v1_def post_v2_def res_redirect_string startsWith_def js_def)

end
